theory Spec2Isabelle
  imports Complex_Main
begin

section \<open>The audio recorder of vox (vox/recorder.py)\<close>

text \<open>
  A shallow embedding of \<^verbatim>\<open>vox/recorder.py\<close>: the level meter \<^verbatim>\<open>_rms_to_db\<close>, the
  normaliser \<^verbatim>\<open>_normalize\<close>, the device precheck \<^verbatim>\<open>_ensure_mic_available\<close>, and the
  two capture operations \<^verbatim>\<open>record_until_silence\<close> and \<^verbatim>\<open>record_for_duration\<close>.

  Samples are modelled as real numbers: rounding to 32-bit floats, infinities and NaN
  samples are outside the model. The one NaN the code can produce from finite samples,
  the mean of an empty block, is modelled explicitly (as \<open>None\<close>). What the audio library
  does (whether a call raises, which blocks the driver delivers) is an input of the model.
\<close>

subsection \<open>Module constants\<close>

definition SAMPLE_RATE :: int where
  "SAMPLE_RATE = 16000"

definition CHANNELS :: int where
  "CHANNELS = 1"

definition BLOCK_SIZE :: int where
  "BLOCK_SIZE = 1024"

datatype dtype = Float32 | Float64

definition DTYPE :: dtype where
  "DTYPE = Float32"

subsection \<open>Exceptions\<close>

text \<open>
  \<^verbatim>\<open>RecorderError\<close> is the module's own exception class; \<^verbatim>\<open>PortAudioError\<close> is the audio
  library's; \<^verbatim>\<open>ValueError\<close> is what numpy raises; \<open>OtherException\<close> stands for any other
  subclass of \<^verbatim>\<open>Exception\<close>. Each carries its message.
\<close>

datatype exn =
    RecorderError string
  | PortAudioError string
  | ValueError string
  | OtherException string

fun exn_str :: "exn \<Rightarrow> string" where
  "exn_str (RecorderError m) = m"
| "exn_str (PortAudioError m) = m"
| "exn_str (ValueError m) = m"
| "exn_str (OtherException m) = m"



subsection \<open>Arrays\<close>

text \<open>
  A one-channel numpy array: its element type and its samples. A block delivered by the
  stream (opened with \<^verbatim>\<open>dtype=DTYPE\<close>, \<^verbatim>\<open>channels=CHANNELS\<close>) is the list of its samples,
  and \<^verbatim>\<open>len(chunk)\<close> is the length of that list.
\<close>

record ndarray =
  dtype :: dtype
  data :: "real list"

type_synonym block = "real list"

text \<open>\<^verbatim>\<open>np.max\<close> raises on an empty array.\<close>

fun np_max :: "real list \<Rightarrow> exn + real" where
  "np_max [] =
     Inl (ValueError ''zero-size array to reduction operation maximum which has no identity'')"
| "np_max (x # xs) = Inr (fold max xs x)"

text \<open>\<^verbatim>\<open>np.mean\<close> of an empty array is NaN (a warning, not an exception): \<open>None\<close>.\<close>

definition np_mean :: "real list \<Rightarrow> real option" where
  "np_mean xs = (if xs = [] then None else Some (sum_list xs / real (length xs)))"

text \<open>Python's \<^verbatim>\<open>int(x)\<close> on a float truncates towards zero.\<close>

definition py_int :: "real \<Rightarrow> int" where
  "py_int x = (if 0 \<le> x then \<lfloor>x\<rfloor> else \<lceil>x\<rceil>)"

subsection \<open>Level meter\<close>

definition rms_to_db :: "real \<Rightarrow> real" where
  "rms_to_db rms = (if rms \<le> 0 then - 120 else 20 * log 10 rms)"

text \<open>
  \<^verbatim>\<open>rms = float(np.sqrt(np.mean(chunk ** 2)))\<close> and \<^verbatim>\<open>db = _rms_to_db(rms)\<close>. On NaN the
  test \<^verbatim>\<open>rms <= 0\<close> is false and the logarithm is NaN again.
\<close>

definition chunk_rms :: "block \<Rightarrow> real option" where
  "chunk_rms chunk = map_option sqrt (np_mean (map (\<lambda>x. x ^ 2) chunk))"

definition chunk_db :: "block \<Rightarrow> real option" where
  "chunk_db chunk = map_option rms_to_db (chunk_rms chunk)"

text \<open>\<^verbatim>\<open>db < threshold_db\<close>: false when \<^verbatim>\<open>db\<close> is NaN.\<close>

definition db_below :: "real option \<Rightarrow> real \<Rightarrow> bool" where
  "db_below db threshold_db = (case db of None \<Rightarrow> False | Some d \<Rightarrow> d < threshold_db)"

subsection \<open>Normaliser\<close>

definition normalize_audio :: "ndarray \<Rightarrow> exn + ndarray" where
  "normalize_audio audio =
     (case np_max (map abs (data audio)) of
        Inl e \<Rightarrow> Inl e
      | Inr peak \<Rightarrow>
          Inr ((if peak > 0 then audio\<lparr>data := map (\<lambda>x. x / peak) (data audio)\<rparr> else audio)
                 \<lparr>dtype := Float32\<rparr>))"

text \<open>The peak absolute value of a buffer, as \<^verbatim>\<open>np.max(np.abs(audio))\<close> computes it.\<close>

definition peak_of :: "ndarray \<Rightarrow> exn + real" where
  "peak_of audio = np_max (map abs (data audio))"

text \<open>The same value as a set maximum, for reasoning about non-empty buffers.\<close>

definition peak :: "real list \<Rightarrow> real" where
  "peak xs = Max (abs ` set xs)"

subsection \<open>Device precheck\<close>

record device_info =
  name :: string
  max_input_channels :: int

text \<open>
  The argument is the outcome of \<^verbatim>\<open>sd.query_devices(device, kind="input")\<close>: an exception
  or the device's description. A \<^verbatim>\<open>RecorderError\<close> raised inside the \<^verbatim>\<open>try\<close> passes through
  the \<^verbatim>\<open>except Exception\<close> clause unchanged.
\<close>

definition ensure_mic_available :: "exn + device_info \<Rightarrow> exn + unit" where
  "ensure_mic_available query =
     (let body =
        (case query of
           Inl e \<Rightarrow> Inl e
         | Inr info \<Rightarrow>
             if max_input_channels info < 1
             then Inl (RecorderError
                    (''Device '' @ [CHR 0x27] @ name info @ [CHR 0x27] @ '' has no input channels''))
             else Inr ())
      in case body of
           Inl (PortAudioError m) \<Rightarrow> Inl (RecorderError (''Cannot access audio device: '' @ m))
         | Inl (RecorderError m) \<Rightarrow> Inl (RecorderError m)
         | Inl e \<Rightarrow> Inl (RecorderError (''No suitable input device found: '' @ exn_str e))
         | Inr u \<Rightarrow> Inr u)"

subsection \<open>The queue between the stream callback and the consumer loop\<close>

text \<open>
  Python's \<^verbatim>\<open>queue.Queue(maxsize=0)\<close>: a FIFO whose \<^verbatim>\<open>put\<close> blocks while the queue is full,
  and a queue is full only when \<^verbatim>\<open>maxsize\<close> is positive and reached. \<open>None\<close> from
  \<open>queue_put\<close> is a producer that blocks; \<open>None\<close> from \<open>queue_get\<close> is \<^verbatim>\<open>queue.Empty\<close>
  after the timeout.
\<close>

record 'a py_queue =
  maxsize :: int
  items :: "'a list"

definition Queue :: "int \<Rightarrow> 'a py_queue" where
  "Queue m = \<lparr>maxsize = m, items = []\<rparr>"

definition queue_full :: "'a py_queue \<Rightarrow> bool" where
  "queue_full q = (0 < maxsize q \<and> maxsize q \<le> int (length (items q)))"

definition queue_put :: "'a py_queue \<Rightarrow> 'a \<Rightarrow> 'a py_queue option" where
  "queue_put q x = (if queue_full q then None else Some (q\<lparr>items := items q @ [x]\<rparr>))"

definition queue_get :: "'a py_queue \<Rightarrow> ('a \<times> 'a py_queue) option" where
  "queue_get q = (case items q of [] \<Rightarrow> None | x # xs \<Rightarrow> Some (x, q\<lparr>items := xs\<rparr>))"

text \<open>\<^verbatim>\<open>audio_queue = queue.Queue()\<close> and the callback \<^verbatim>\<open>audio_queue.put(indata.copy())\<close>.\<close>

definition audio_queue :: "block py_queue" where
  "audio_queue = Queue 0"

definition callback :: "block py_queue \<Rightarrow> block \<Rightarrow> block py_queue option" where
  "callback q indata = queue_put q indata"

text \<open>The driver invoking the callback once per block, in order.\<close>

fun callbacks :: "block py_queue \<Rightarrow> block list \<Rightarrow> block py_queue option" where
  "callbacks q [] = Some q"
| "callbacks q (b # bs) = (case callback q b of None \<Rightarrow> None | Some q' \<Rightarrow> callbacks q' bs)"

subsection \<open>Endpointing: the consumer loop of \<^verbatim>\<open>record_until_silence\<close>\<close>

record session =
  chunks :: "block list"
  silent_samples :: int
  total_samples :: int

definition new_session :: session where
  "new_session = \<lparr>chunks = [], silent_samples = 0, total_samples = 0\<rparr>"

definition silent_samples_needed :: "real \<Rightarrow> int" where
  "silent_samples_needed silence_duration = py_int (silence_duration * real_of_int SAMPLE_RATE)"

definition max_samples :: "real \<Rightarrow> int" where
  "max_samples max_duration = py_int (max_duration * real_of_int SAMPLE_RATE)"

text \<open>The loop body from \<^verbatim>\<open>chunks.append(chunk)\<close> to the update of \<^verbatim>\<open>silent_samples\<close>.\<close>

definition on_chunk :: "real \<Rightarrow> session \<Rightarrow> block \<Rightarrow> session" where
  "on_chunk threshold_db s chunk =
     (let s1 = s\<lparr>chunks := chunks s @ [chunk],
                 total_samples := total_samples s + int (length chunk)\<rparr>
      in if db_below (chunk_db chunk) threshold_db
         then s1\<lparr>silent_samples := silent_samples s + int (length chunk)\<rparr>
         else s1\<lparr>silent_samples := 0\<rparr>)"

text \<open>The two \<^verbatim>\<open>break\<close> statements, in their order; \<open>None\<close> is the next iteration.\<close>

datatype stop_reason = BreakSilence | BreakMax

definition stop_check :: "int \<Rightarrow> int \<Rightarrow> session \<Rightarrow> stop_reason option" where
  "stop_check needed maxs s =
     (if silent_samples s \<ge> needed \<and> total_samples s > needed then Some BreakSilence
      else if total_samples s \<ge> maxs then Some BreakMax
      else None)"

text \<open>
  One iteration of \<^verbatim>\<open>while True\<close> sees a block from \<^verbatim>\<open>audio_queue.get(timeout=0.1)\<close>, or
  \<^verbatim>\<open>queue.Empty\<close>, or an exception that leaves the loop body. The body makes no call into
  the audio library, so a failure of the driver is not such an exception: it shows as the
  end of the deliveries, and as an error when the stream is opened or closed. The list
  holds what the iterations see, in order; when it is exhausted the driver delivers
  nothing more, every later \<^verbatim>\<open>get\<close> times out and the loop never exits: \<open>None\<close>.
\<close>

datatype loop_event = Chunk block | Empty | Raises exn

fun capture_loop ::
  "real \<Rightarrow> int \<Rightarrow> int \<Rightarrow> session \<Rightarrow> loop_event list \<Rightarrow> (exn + stop_reason \<times> session) option"
where
  "capture_loop thr needed maxs s [] = None"
| "capture_loop thr needed maxs s (Empty # es) = capture_loop thr needed maxs s es"
| "capture_loop thr needed maxs s (Raises e # es) = Some (Inl e)"
| "capture_loop thr needed maxs s (Chunk c # es) =
     (let s' = on_chunk thr s c
      in case stop_check needed maxs s' of
           Some r \<Rightarrow> Some (Inr (r, s'))
         | None \<Rightarrow> capture_loop thr needed maxs s' es)"

text \<open>
  The \<^verbatim>\<open>with sd.InputStream(...)\<close> statement: opening and starting the stream may raise,
  and so may stopping and closing it on the way out, in which case that exception
  replaces the one of the body.
\<close>

record stream_env =
  open_error :: "exn option"
  events :: "loop_event list"
  close_error :: "exn option"

definition with_input_stream ::
  "real \<Rightarrow> int \<Rightarrow> int \<Rightarrow> stream_env \<Rightarrow> (exn + stop_reason \<times> session) option"
where
  "with_input_stream thr needed maxs env =
     (case open_error env of
        Some e \<Rightarrow> Some (Inl e)
      | None \<Rightarrow>
          (case capture_loop thr needed maxs new_session (events env) of
             None \<Rightarrow> None
           | Some (Inl e) \<Rightarrow> Some (Inl (case close_error env of Some e2 \<Rightarrow> e2 | None \<Rightarrow> e))
           | Some (Inr r) \<Rightarrow>
               (case close_error env of Some e2 \<Rightarrow> Some (Inl e2) | None \<Rightarrow> Some (Inr r))))"

text \<open>The handler \<^verbatim>\<open>except sd.PortAudioError as e\<close> of both capture operations.\<close>

fun translate_stream_error :: "exn \<Rightarrow> exn" where
  "translate_stream_error (PortAudioError m) = RecorderError (''Audio recording failed: '' @ m)"
| "translate_stream_error e = e"

definition record_until_silence ::
  "real \<Rightarrow> real \<Rightarrow> real \<Rightarrow> exn + device_info \<Rightarrow> stream_env \<Rightarrow> (exn + ndarray) option"
where
  "record_until_silence threshold_db silence_duration max_duration query env =
     (case ensure_mic_available query of
        Inl e \<Rightarrow> Some (Inl e)
      | Inr u \<Rightarrow>
          (case with_input_stream threshold_db (silent_samples_needed silence_duration)
                  (max_samples max_duration) env of
             None \<Rightarrow> None
           | Some (Inl e) \<Rightarrow> Some (Inl (translate_stream_error e))
           | Some (Inr (r, s)) \<Rightarrow>
               Some (if chunks s = [] then Inr \<lparr>dtype = Float32, data = []\<rparr>
                     else normalize_audio \<lparr>dtype = DTYPE, data = concat (chunks s)\<rparr>)))"


subsection \<open>The spec's wording, for comparison with the code\<close>

text \<open>
  The end-of-session condition as the spec's invariant words it: silence and the total
  both at or above the configured silence duration, or the total at or above the maximum
  duration, with durations in seconds times the sample rate.
\<close>

definition spec_end_condition :: "real \<Rightarrow> real \<Rightarrow> session \<Rightarrow> bool" where
  "spec_end_condition silence_duration max_duration s =
     ((real_of_int (silent_samples s) \<ge> silence_duration * real_of_int SAMPLE_RATE
        \<and> real_of_int (total_samples s) \<ge> silence_duration * real_of_int SAMPLE_RATE)
      \<or> real_of_int (total_samples s) \<ge> max_duration * real_of_int SAMPLE_RATE)"

text \<open>A block whose measured level is below the threshold.\<close>

definition is_silent :: "real \<Rightarrow> block \<Rightarrow> bool" where
  "is_silent threshold_db chunk = db_below (chunk_db chunk) threshold_db"

text \<open>The sample count of the maximal trailing run of below-threshold blocks.\<close>

definition trailing_silent :: "real \<Rightarrow> block list \<Rightarrow> int" where
  "trailing_silent threshold_db cs =
     sum_list (map (\<lambda>c. int (length c)) (takeWhile (is_silent threshold_db) (rev cs)))"

text \<open>A working one-channel microphone, and a driver that records silence.\<close>

definition mic :: "exn + device_info" where
  "mic = Inr \<lparr>name = ''Mic'', max_input_channels = 1\<rparr>"


text \<open>A stream that delivers two silent blocks of 1024 samples, with a timeout between them.\<close>

definition silent_session :: stream_env where
  "silent_session =
     \<lparr>open_error = None,
      events = [Chunk (replicate 1024 0), Empty, Chunk (replicate 1024 0)],
      close_error = None\<rparr>"

text \<open>
  A stream whose driver fails during the capture: it delivers one loud block of 1024
  samples and then nothing more, and stopping the stream would raise.
\<close>

definition stalled_session :: stream_env where
  "stalled_session =
     \<lparr>open_error = None,
      events = [Chunk (replicate 1024 1)],
      close_error = Some (PortAudioError ''Device unavailable'')\<rparr>"

section \<open>The level meter\<close>

lemma log10_pow10: "log 10 ((10::real) ^ n) = real n"
  by (simp add: log_nat_power)

lemma log10_pow2: "log 10 ((2::real) ^ n) = real n * log 10 2"
  by (simp add: log_nat_power)

lemma log10_inv_pow10: "log 10 (1 / (10::real) ^ n) = - real n"
  by (simp add: log_divide log_nat_power)

lemma log10_2_lower: "1 / 4 < log 10 (2::real)"
proof -
  have "log 10 (10::real) < log 10 16"
    by (subst log_less_cancel_iff) simp_all
  moreover have "log 10 (16::real) = 4 * log 10 2"
    using log10_pow2 [of 4] by simp
  ultimately show ?thesis by simp
qed

lemma log10_2_upper: "log 10 (2::real) < 7 / 20"
proof -
  have "log 10 ((2::real) ^ 20) < log 10 (10 ^ 7)"
    by (subst log_less_cancel_iff) simp_all
  then have "20 * log 10 (2::real) < 7"
    unfolding log10_pow10 log10_pow2 by simp
  then show ?thesis by simp
qed

lemma rms_to_db_half: "rms_to_db (1 / 2) = - 20 * log 10 2"
  by (simp add: rms_to_db_def log_divide)

lemma rms_to_db_nonpos: "rms \<le> 0 \<Longrightarrow> rms_to_db rms = - 120"
  by (simp add: rms_to_db_def)

text \<open>
  C5: for every non-positive RMS the level meter returns exactly -120; for an RMS of 1
  the result is within 0.01 of 0; for an RMS of 0.5 it lies strictly between -7 and -5.
\<close>

theorem rms_to_db_reference_levels:
  "(\<forall>rms\<le>0. rms_to_db rms = - 120)
   \<and> \<bar>rms_to_db 1 - 0\<bar> < 0.01
   \<and> - 7 < rms_to_db 0.5 \<and> rms_to_db 0.5 < - 5"
proof -
  have half: "rms_to_db 0.5 = - 20 * log 10 2"
    using rms_to_db_half by simp
  have "rms_to_db 1 = 0"
    by (simp add: rms_to_db_def)
  moreover have "- 7 < rms_to_db 0.5"
    unfolding half using log10_2_upper by simp
  moreover have "rms_to_db 0.5 < - 5"
    unfolding half using log10_2_lower by simp
  ultimately show ?thesis
    by (simp add: rms_to_db_nonpos)
qed

theorem rms_to_db_reference_levels_witness:
  "(0::real) \<le> 0 \<and> rms_to_db 0 = - 120 \<and> (- 1::real) \<le> 0 \<and> rms_to_db (- 1) = - 120"
proof -
  have "\<forall>rms\<le>0. rms_to_db rms = - 120"
    using rms_to_db_reference_levels by (rule conjunct1)
  then show ?thesis by simp
qed

text \<open>
  C9: there is a strictly positive RMS (one ten-billionth) whose level is strictly below
  -120. The floor value is the result of the floor branch, which is taken only for a
  non-positive RMS: every positive RMS gets 20 times its decimal logarithm, unclamped.
  So -120 is not a lower bound of the level meter.
\<close>

theorem rms_to_db_not_bounded_below:
  "0 < (1 / 10 ^ 10 :: real) \<and> rms_to_db (1 / 10 ^ 10) = - 200
   \<and> rms_to_db (1 / 10 ^ 10) < - 120
   \<and> (\<forall>r. 0 < r \<longrightarrow> rms_to_db r = 20 * log 10 r)
   \<and> \<not> (\<forall>r. - 120 \<le> rms_to_db r)"
proof -
  have a: "rms_to_db (1 / 10 ^ 10) = - 200"
    unfolding rms_to_db_def log10_inv_pow10 by simp
  then have b: "rms_to_db (1 / 10 ^ 10) < - 120"
    by simp
  have z: "0 < (1 / 10 ^ 10 :: real)"
    by simp
  have d: "\<forall>r. 0 < r \<longrightarrow> rms_to_db r = 20 * log 10 r"
    by (simp add: rms_to_db_def)
  have e: "\<not> (\<forall>r. - 120 \<le> rms_to_db r)"
  proof
    assume "\<forall>r. - 120 \<le> rms_to_db r"
    then have "- 120 \<le> rms_to_db (1 / 10 ^ 10)"
      by (rule spec)
    with b show False
      by simp
  qed
  from z a b d e show ?thesis
    by (intro conjI)
qed

theorem rms_to_db_not_bounded_below_witness:
  "(0::real) < 2 \<and> rms_to_db 2 = 20 * log 10 2"
proof -
  have "\<forall>r. 0 < r \<longrightarrow> rms_to_db r = 20 * log 10 r"
    using rms_to_db_not_bounded_below by blast
  then have "(0::real) < 2 \<longrightarrow> rms_to_db 2 = 20 * log 10 2"
    by (rule spec)
  then show ?thesis by simp
qed

section \<open>The normaliser\<close>

lemma np_max_nonempty: "xs \<noteq> [] \<Longrightarrow> np_max (map abs xs) = Inr (peak xs)"
proof (cases xs)
  case (Cons x ys)
  show ?thesis
    using Max.set_eq_fold [of "\<bar>x\<bar>" "map abs ys"] by (simp add: Cons peak_def)
qed simp

lemma peak_of_nonempty: "data a \<noteq> [] \<Longrightarrow> peak_of a = Inr (peak (data a))"
  by (simp add: peak_of_def np_max_nonempty)

lemma peak_pos_iff: "xs \<noteq> [] \<Longrightarrow> 0 < peak xs \<longleftrightarrow> (\<exists>x \<in> set xs. x \<noteq> 0)"
  unfolding peak_def by (subst Max_gr_iff) auto

lemma peak_scaled:
  assumes "xs \<noteq> []" and "0 < p"
  shows "peak (map (\<lambda>x. x / p) xs) = peak xs / p"
proof -
  have "abs ` set (map (\<lambda>x. x / p) xs) = (\<lambda>v. v / p) ` (abs ` set xs)"
    using assms(2) by (auto simp: image_image abs_divide intro!: image_eqI)
  moreover have "(\<lambda>v. v / p) (Max (abs ` set xs)) = Max ((\<lambda>v. v / p) ` (abs ` set xs))"
    using assms by (intro mono_Max_commute) (auto simp: mono_def divide_right_mono)
  ultimately show ?thesis
    by (simp add: peak_def)
qed

lemma normalize_audio_nonempty:
  "data a \<noteq> [] \<Longrightarrow>
   normalize_audio a =
     Inr ((if peak (data a) > 0 then a\<lparr>data := map (\<lambda>x. x / peak (data a)) (data a)\<rparr> else a)
          \<lparr>dtype := Float32\<rparr>)"
  by (simp add: normalize_audio_def np_max_nonempty)

lemma normalize_audio_unchanged:
  assumes "data a \<noteq> []" and "peak (data a) = 1 \<or> peak (data a) \<le> 0"
  shows "normalize_audio a = Inr (a\<lparr>dtype := Float32\<rparr>)"
  using assms by (auto simp: normalize_audio_nonempty)

lemma normalize_audio_peak:
  assumes "data a \<noteq> []" and "normalize_audio a = Inr y"
  shows "data y \<noteq> [] \<and> (peak (data y) = 1 \<or> peak (data y) \<le> 0)"
proof (cases "0 < peak (data a)")
  case True
  then have "data y = map (\<lambda>x. x / peak (data a)) (data a)"
    using assms by (auto simp: normalize_audio_nonempty)
  then show ?thesis
    using assms(1) True by (simp add: peak_scaled)
next
  case False
  then have "data y = data a"
    using assms by (auto simp: normalize_audio_nonempty)
  then show ?thesis
    using assms(1) False by simp
qed

lemma normalize_audio_idem:
  assumes "data a \<noteq> []"
  shows "\<exists>y. normalize_audio a = Inr y \<and> normalize_audio y = Inr y"
proof -
  obtain y where y: "normalize_audio a = Inr y"
    using assms by (simp add: normalize_audio_nonempty)
  have d: "dtype y = Float32"
    using y assms by (auto simp: normalize_audio_nonempty)
  from normalize_audio_peak [OF assms y] have "normalize_audio y = Inr (y\<lparr>dtype := Float32\<rparr>)"
    by (intro normalize_audio_unchanged) auto
  with d y show ?thesis by simp
qed

text \<open>
  C3, as stated for every buffer, fails at the empty buffer (all of whose samples are
  zero): \<^verbatim>\<open>np.max\<close> raises \<^verbatim>\<open>ValueError\<close> there, so the buffer is not returned unchanged and
  \<^verbatim>\<open>normalize(normalize(x))\<close> has no value to compare.
\<close>

theorem normalize_audio_empty_raises:
  "normalize_audio \<lparr>dtype = Float32, data = []\<rparr> =
     Inl (ValueError ''zero-size array to reduction operation maximum which has no identity'')"
  by (simp add: normalize_audio_def)

text \<open>
  C3, amended: on every non-empty buffer the normaliser is idempotent (it returns a
  buffer that it then returns as it is); a non-empty buffer of unit peak and a non-empty
  all-zero buffer are returned with their samples unchanged, as float32, and nothing is
  divided by zero.
\<close>

theorem normalize_audio_idempotent:
  "data x \<noteq> [] \<Longrightarrow>
     (\<exists>y. normalize_audio x = Inr y \<and> normalize_audio y = Inr y)
     \<and> (peak_of x = Inr 1 \<longrightarrow> normalize_audio x = Inr (x\<lparr>dtype := Float32\<rparr>))
     \<and> ((\<forall>v\<in>set (data x). v = 0) \<longrightarrow> normalize_audio x = Inr (x\<lparr>dtype := Float32\<rparr>))"
proof -
  assume ne: "data x \<noteq> []"
  have unit: "normalize_audio x = Inr (x\<lparr>dtype := Float32\<rparr>)" if "peak_of x = Inr 1"
    using that ne by (intro normalize_audio_unchanged) (simp_all add: peak_of_nonempty)
  have zero: "normalize_audio x = Inr (x\<lparr>dtype := Float32\<rparr>)" if "\<forall>v\<in>set (data x). v = 0"
  proof -
    have "\<not> 0 < peak (data x)"
      using that ne by (simp add: peak_pos_iff)
    then show ?thesis
      using ne by (intro normalize_audio_unchanged) simp_all
  qed
  from normalize_audio_idem [OF ne] unit zero show ?thesis
    by blast
qed

theorem normalize_audio_idempotent_witness:
  "data \<lparr>dtype = Float32, data = [0, 1, - 1 / 2]\<rparr> \<noteq> []
   \<and> peak_of \<lparr>dtype = Float32, data = [0, 1, - 1 / 2]\<rparr> = Inr 1
   \<and> normalize_audio \<lparr>dtype = Float32, data = [0, 1, - 1 / 2]\<rparr>
       = Inr \<lparr>dtype = Float32, data = [0, 1, - 1 / 2]\<rparr>
   \<and> set (data \<lparr>dtype = Float32, data = [0, 0, 0]\<rparr>) = {0}
   \<and> normalize_audio \<lparr>dtype = Float32, data = [0, 0, 0]\<rparr>
       = Inr \<lparr>dtype = Float32, data = [0, 0, 0]\<rparr>"
  using normalize_audio_idempotent [of "\<lparr>dtype = Float32, data = [0, 1, - 1 / 2]\<rparr>"]
    normalize_audio_idempotent [of "\<lparr>dtype = Float32, data = [0, 0, 0]\<rparr>"]
  by (simp add: peak_of_def)

text \<open>
  C4: for every buffer with at least one non-zero sample the normaliser returns a buffer
  whose maximum absolute sample value is exactly 1, in the 32-bit float representation
  and of the same length.
\<close>

theorem normalize_audio_unit_peak:
  "\<exists>v\<in>set (data x). v \<noteq> 0 \<Longrightarrow>
     \<exists>y. normalize_audio x = Inr y \<and> peak_of y = Inr 1 \<and> dtype y = Float32
       \<and> length (data y) = length (data x)"
proof -
  assume nz: "\<exists>v\<in>set (data x). v \<noteq> 0"
  then have ne: "data x \<noteq> []"
    by auto
  with nz have pos: "0 < peak (data x)"
    by (simp add: peak_pos_iff)
  define y where "y = x\<lparr>data := map (\<lambda>v. v / peak (data x)) (data x), dtype := Float32\<rparr>"
  have "normalize_audio x = Inr y"
    using ne pos by (simp add: normalize_audio_nonempty y_def)
  moreover have "peak_of y = Inr 1"
    using ne pos by (simp add: peak_of_nonempty y_def peak_scaled)
  moreover have "dtype y = Float32" and "length (data y) = length (data x)"
    by (simp_all add: y_def)
  ultimately show ?thesis
    by blast
qed

theorem normalize_audio_unit_peak_witness:
  "(\<exists>v\<in>set (data \<lparr>dtype = Float32, data = [0, 1 / 2, - 1 / 4]\<rparr>). v \<noteq> 0)
   \<and> normalize_audio \<lparr>dtype = Float32, data = [0, 1 / 2, - 1 / 4]\<rparr>
       = Inr \<lparr>dtype = Float32, data = [0, 1, - 1 / 2]\<rparr>
   \<and> peak_of \<lparr>dtype = Float32, data = [0, 1, - 1 / 2]\<rparr> = Inr 1"
proof -
  have nz: "\<exists>v\<in>set (data \<lparr>dtype = Float32, data = [0, 1 / 2, - 1 / 4]\<rparr>). v \<noteq> (0::real)"
    by simp
  have val: "normalize_audio \<lparr>dtype = Float32, data = [0, 1 / 2, - 1 / 4]\<rparr>
      = Inr \<lparr>dtype = Float32, data = [0, 1, - 1 / 2]\<rparr>"
    by (simp add: normalize_audio_def)
  from normalize_audio_unit_peak [OF nz] val
  have "peak_of \<lparr>dtype = Float32, data = [0, 1, - 1 / 2]\<rparr> = Inr 1"
    by auto
  with nz val show ?thesis
    by blast
qed

section \<open>The queue\<close>

lemma callbacks_unbounded:
  "maxsize q = 0 \<Longrightarrow> callbacks q bs = Some (q\<lparr>items := items q @ bs\<rparr>)"
  by (induction bs arbitrary: q) (simp_all add: callback_def queue_put_def queue_full_def)

lemma callbacks_audio_queue: "callbacks audio_queue bs = Some \<lparr>maxsize = 0, items = bs\<rparr>"
  by (simp add: callbacks_unbounded audio_queue_def Queue_def)

text \<open>
  C2, as stated, fails: no capacity bounds the queue. Whatever the capacity, a driver
  that delivers one block more than it, with no block consumed, leaves them all queued.
\<close>

theorem audio_queue_unbounded:
  "\<not> (\<exists>cap. \<forall>bs q. callbacks audio_queue bs = Some q \<longrightarrow> length (items q) \<le> cap)"
proof
  assume "\<exists>cap. \<forall>bs q. callbacks audio_queue bs = Some q \<longrightarrow> length (items q) \<le> cap"
  then obtain cap
    where c: "\<And>bs q. callbacks audio_queue bs = Some q \<Longrightarrow> length (items q) \<le> cap"
    by blast
  from c [OF callbacks_audio_queue [of "replicate (Suc cap) []"]] show False
    by simp
qed

text \<open>
  C2, amended: the channel between the block-delivery handler and the consumer loop is
  an unbounded FIFO queue. An enqueue never blocks the producer and never drops a block:
  the queue is never full, the blocks delivered are appended in order to those waiting,
  and the consumer takes the oldest one first (or times out on an empty queue).
\<close>

theorem audio_queue_keeps_every_block:
  "audio_queue = \<lparr>maxsize = 0, items = []\<rparr>
   \<and> \<not> queue_full \<lparr>maxsize = 0, items = xs\<rparr>
   \<and> callbacks \<lparr>maxsize = 0, items = xs\<rparr> bs = Some \<lparr>maxsize = 0, items = xs @ bs\<rparr>
   \<and> queue_get \<lparr>maxsize = 0, items = x # xs\<rparr> = Some (x, \<lparr>maxsize = 0, items = xs\<rparr>)
   \<and> queue_get \<lparr>maxsize = 0, items = []\<rparr> = None"
  by (simp add: callbacks_unbounded audio_queue_def Queue_def queue_full_def queue_get_def)


section \<open>Evaluation on concrete blocks\<close>

lemma silent_samples_needed_example: "silent_samples_needed 0.064 = 1024"
  by (simp add: silent_samples_needed_def py_int_def SAMPLE_RATE_def)

lemma silent_samples_needed_default: "silent_samples_needed 1.5 = 24000"
  by (simp add: silent_samples_needed_def py_int_def SAMPLE_RATE_def)

lemma silent_samples_needed_truncates: "silent_samples_needed 0.06401 = 1024"
  by (simp add: silent_samples_needed_def py_int_def SAMPLE_RATE_def)

lemma max_samples_default: "max_samples 30 = 480000"
  by (simp add: max_samples_def py_int_def SAMPLE_RATE_def)

lemma chunk_db_zeros: "0 < n \<Longrightarrow> chunk_db (replicate n 0) = Some (- 120)"
  by (simp add: chunk_db_def chunk_rms_def np_mean_def rms_to_db_def sum_list_replicate)

lemma chunk_db_ones: "0 < n \<Longrightarrow> chunk_db (replicate n 1) = Some 0"
  by (simp add: chunk_db_def chunk_rms_def np_mean_def rms_to_db_def sum_list_replicate)

lemma is_silent_zeros: "0 < n \<Longrightarrow> is_silent (- 40) (replicate n 0)"
  by (simp add: is_silent_def chunk_db_zeros db_below_def)

lemma not_silent_ones: "0 < n \<Longrightarrow> \<not> is_silent (- 40) (replicate n 1)"
  by (simp add: is_silent_def chunk_db_ones db_below_def)

lemma on_chunk_zeros:
  "0 < n \<Longrightarrow> on_chunk (- 40) s (replicate n 0) =
     \<lparr>chunks = chunks s @ [replicate n 0], silent_samples = silent_samples s + int n,
      total_samples = total_samples s + int n\<rparr>"
  by (simp add: on_chunk_def chunk_db_zeros db_below_def Let_def)

lemma on_chunk_ones:
  "0 < n \<Longrightarrow> on_chunk (- 40) s (replicate n 1) =
     \<lparr>chunks = chunks s @ [replicate n 1], silent_samples = 0,
      total_samples = total_samples s + int n\<rparr>"
  by (simp add: on_chunk_def chunk_db_ones db_below_def Let_def)

lemma mic_available: "ensure_mic_available mic = Inr ()"
  by (simp add: ensure_mic_available_def mic_def)

section \<open>The consumer loop\<close>

lemma on_chunk_silent:
  "silent_samples (on_chunk thr s c) =
     (if is_silent thr c then silent_samples s + int (length c) else 0)"
  by (simp add: on_chunk_def is_silent_def Let_def)

lemma on_chunk_chunks: "chunks (on_chunk thr s c) = chunks s @ [c]"
  by (simp add: on_chunk_def Let_def)

lemma foldl_on_chunk_chunks: "chunks (foldl (on_chunk thr) s cs) = chunks s @ cs"
  by (induction cs arbitrary: s) (simp_all add: on_chunk_chunks)

lemma trailing_silent_snoc:
  "trailing_silent thr (cs @ [c]) =
     (if is_silent thr c then int (length c) + trailing_silent thr cs else 0)"
  by (simp add: trailing_silent_def)

lemma foldl_on_chunk_silent:
  "silent_samples (foldl (on_chunk thr) s cs) =
     trailing_silent thr cs + (if list_all (is_silent thr) cs then silent_samples s else 0)"
  by (induction cs rule: rev_induct)
    (simp_all add: trailing_silent_snoc on_chunk_silent trailing_silent_def)

lemma capture_loop_result:
  "capture_loop thr n m s es = Some (Inr (r, s')) \<Longrightarrow>
   \<exists>cs. cs \<noteq> [] \<and> s' = foldl (on_chunk thr) s cs \<and> stop_check n m s' = Some r"
proof (induction thr n m s es rule: capture_loop.induct)
  case (4 thr n m s c es)
  show ?case
  proof (cases "stop_check n m (on_chunk thr s c)")
    case None
    with 4 obtain cs
      where "cs \<noteq> []" and "s' = foldl (on_chunk thr) (on_chunk thr s c) cs"
        and "stop_check n m s' = Some r"
      by (auto simp: Let_def)
    then show ?thesis
      by (intro exI [of _ "c # cs"]) simp
  next
    case (Some r')
    with 4 show ?thesis
      by (intro exI [of _ "[c]"]) (auto simp: Let_def)
  qed
qed simp_all

lemma capture_loop_timeouts: "capture_loop thr n m s (replicate k Empty) = None"
  by (induction k) simp_all

lemma stop_check_silence:
  "stop_check n m s = Some BreakSilence \<longleftrightarrow> silent_samples s \<ge> n \<and> total_samples s > n"
  by (simp add: stop_check_def)

lemma stop_check_max:
  "stop_check n m s = Some BreakMax \<longleftrightarrow>
     \<not> (silent_samples s \<ge> n \<and> total_samples s > n) \<and> total_samples s \<ge> m"
  by (simp add: stop_check_def)

text \<open>
  C1, amended: while a session is capturing, processing one block ends the session
  exactly when (accumulated silent samples \<open>\<ge>\<close> \<open>silent_samples_needed\<close> and total
  samples strictly greater than \<open>silent_samples_needed\<close>) or total samples \<open>\<ge>\<close>
  \<open>max_samples\<close>, where \<open>silent_samples_needed\<close> is the silence duration times the
  sample rate truncated to an integer, and \<open>max_samples\<close> the maximum duration likewise.
  For every block the silence condition is evaluated before the max-duration condition,
  and every session that leaves the loop by a \<^verbatim>\<open>break\<close> leaves it by exactly one of the two:
  by the silence break exactly when the silence condition holds at its last block, by the
  max-duration break exactly when it does not and the max-duration condition holds.
\<close>

theorem stop_condition_as_coded:
  "silent_samples_needed silence_duration = py_int (silence_duration * 16000)
   \<and> max_samples max_duration = py_int (max_duration * 16000)
   \<and> capture_loop thr (silent_samples_needed silence_duration) (max_samples max_duration) s
        (Chunk c # es) =
       (let s' = on_chunk thr s c
        in if silent_samples s' \<ge> silent_samples_needed silence_duration
              \<and> total_samples s' > silent_samples_needed silence_duration
           then Some (Inr (BreakSilence, s'))
           else if total_samples s' \<ge> max_samples max_duration
           then Some (Inr (BreakMax, s'))
           else capture_loop thr (silent_samples_needed silence_duration)
                  (max_samples max_duration) s' es)
   \<and> (\<forall>r s'. capture_loop thr (silent_samples_needed silence_duration)
                  (max_samples max_duration) s run = Some (Inr (r, s')) \<longrightarrow>
         (r = BreakSilence \<longleftrightarrow>
            silent_samples s' \<ge> silent_samples_needed silence_duration
            \<and> total_samples s' > silent_samples_needed silence_duration)
         \<and> (r = BreakMax \<longleftrightarrow>
            \<not> (silent_samples s' \<ge> silent_samples_needed silence_duration
               \<and> total_samples s' > silent_samples_needed silence_duration)
            \<and> total_samples s' \<ge> max_samples max_duration))"
proof -
  let ?n = "silent_samples_needed silence_duration"
  let ?m = "max_samples max_duration"
  have vals: "?n = py_int (silence_duration * 16000)" "?m = py_int (max_duration * 16000)"
    by (simp_all add: silent_samples_needed_def max_samples_def SAMPLE_RATE_def)
  have step: "capture_loop thr ?n ?m s (Chunk c # es) =
       (let s' = on_chunk thr s c
        in if silent_samples s' \<ge> ?n \<and> total_samples s' > ?n then Some (Inr (BreakSilence, s'))
           else if total_samples s' \<ge> ?m then Some (Inr (BreakMax, s'))
           else capture_loop thr ?n ?m s' es)"
    by (simp add: Let_def stop_check_def)
  have fin: "(r = BreakSilence \<longleftrightarrow> silent_samples s' \<ge> ?n \<and> total_samples s' > ?n)
         \<and> (r = BreakMax \<longleftrightarrow>
              \<not> (silent_samples s' \<ge> ?n \<and> total_samples s' > ?n) \<and> total_samples s' \<ge> ?m)"
    if "capture_loop thr ?n ?m s run = Some (Inr (r, s'))" for r s'
  proof -
    from capture_loop_result [OF that] have "stop_check ?n ?m s' = Some r"
      by blast
    then show ?thesis
      using stop_check_silence [of ?n ?m s'] stop_check_max [of ?n ?m s'] by (cases r) auto
  qed
  from fin have fin': "\<forall>r s'. capture_loop thr ?n ?m s run = Some (Inr (r, s')) \<longrightarrow>
         (r = BreakSilence \<longleftrightarrow> silent_samples s' \<ge> ?n \<and> total_samples s' > ?n)
         \<and> (r = BreakMax \<longleftrightarrow>
              \<not> (silent_samples s' \<ge> ?n \<and> total_samples s' > ?n) \<and> total_samples s' \<ge> ?m)"
    by blast
  from vals step fin' show ?thesis
    by (intro conjI)
qed

lemma example_run:
  "capture_loop (- 40) (silent_samples_needed 0.064) (max_samples 30) new_session
     [Chunk (replicate 1024 0), Empty, Chunk (replicate 1024 0)]
   = Some (Inr (BreakSilence,
       \<lparr>chunks = [replicate 1024 0, replicate 1024 0], silent_samples = 2048,
        total_samples = 2048\<rparr>))"
  unfolding silent_samples_needed_example max_samples_default
  by (simp add: on_chunk_zeros stop_check_def new_session_def)

theorem stop_condition_as_coded_witness:
  "capture_loop (- 40) (silent_samples_needed 0.064) (max_samples 30) new_session
     [Chunk (replicate 1024 0), Empty, Chunk (replicate 1024 0)]
   = Some (Inr (BreakSilence,
       \<lparr>chunks = [replicate 1024 0, replicate 1024 0], silent_samples = 2048,
        total_samples = 2048\<rparr>))
   \<and> silent_samples_needed 0.064 \<le> 2048 \<and> silent_samples_needed 0.064 < 2048"
proof -
  have "\<forall>r s'. capture_loop (- 40) (silent_samples_needed 0.064) (max_samples 30) new_session
          [Chunk (replicate 1024 0), Empty, Chunk (replicate 1024 0)] = Some (Inr (r, s')) \<longrightarrow>
         (r = BreakSilence \<longleftrightarrow>
            silent_samples s' \<ge> silent_samples_needed 0.064
            \<and> total_samples s' > silent_samples_needed 0.064)
         \<and> (r = BreakMax \<longleftrightarrow>
            \<not> (silent_samples s' \<ge> silent_samples_needed 0.064
               \<and> total_samples s' > silent_samples_needed 0.064)
            \<and> total_samples s' \<ge> max_samples 30)"
    using stop_condition_as_coded [where thr = "- 40" and silence_duration = "0.064"
        and max_duration = 30 and s = new_session
        and run = "[Chunk (replicate 1024 0), Empty, Chunk (replicate 1024 0)]"]
    by blast
  with example_run show ?thesis
    by fastforce
qed

text \<open>
  C1, as stated, fails: with a silence duration of 0.064 s (1024 samples) and one silent
  block of 1024 samples, silent and total samples both reach the silence duration times
  the sample rate, yet the code does not stop (its comparison of the total is strict),
  and the session goes on to wait for the next block. And with a silence duration of
  0.06401 s (1024.16 samples, truncated to 1024), a loud block followed by a silent one
  stops the code although the silent samples are below the duration times the rate.
\<close>

theorem stop_condition_spec_counterexample:
  "spec_end_condition 0.064 30 (on_chunk (- 40) new_session (replicate 1024 0))
   \<and> stop_check (silent_samples_needed 0.064) (max_samples 30)
        (on_chunk (- 40) new_session (replicate 1024 0)) = None
   \<and> capture_loop (- 40) (silent_samples_needed 0.064) (max_samples 30) new_session
        [Chunk (replicate 1024 0)] = None
   \<and> \<not> spec_end_condition 0.06401 30
        (on_chunk (- 40) (on_chunk (- 40) new_session (replicate 1024 1)) (replicate 1024 0))
   \<and> stop_check (silent_samples_needed 0.06401) (max_samples 30)
        (on_chunk (- 40) (on_chunk (- 40) new_session (replicate 1024 1)) (replicate 1024 0))
       = Some BreakSilence"
  unfolding silent_samples_needed_example silent_samples_needed_truncates max_samples_default
  by (simp add: on_chunk_zeros on_chunk_ones spec_end_condition_def stop_check_def
      new_session_def SAMPLE_RATE_def)

text \<open>
  C6: \<open>silent_samples\<close> is reset to zero on every block whose measured level is at or
  above the threshold; it increases only on a block whose level is below the threshold,
  and then by the block's length; so after any sequence of blocks of a session, and at
  the end of every session, it is the sample count of the maximal trailing run of
  below-threshold blocks.
\<close>

theorem silent_samples_is_trailing_run:
  "(\<forall>d. chunk_db c = Some d \<and> thr \<le> d \<longrightarrow> silent_samples (on_chunk thr s c) = 0)
   \<and> (0 \<le> silent_samples s \<and> silent_samples s < silent_samples (on_chunk thr s c) \<longrightarrow>
        is_silent thr c \<and> silent_samples (on_chunk thr s c) = silent_samples s + int (length c))
   \<and> silent_samples (foldl (on_chunk thr) new_session cs) = trailing_silent thr cs
   \<and> (\<forall>r s'. capture_loop thr n m new_session es = Some (Inr (r, s')) \<longrightarrow>
         silent_samples s' = trailing_silent thr (chunks s'))"
proof -
  have a: "\<forall>d. chunk_db c = Some d \<and> thr \<le> d \<longrightarrow> silent_samples (on_chunk thr s c) = 0"
    by (simp add: on_chunk_silent is_silent_def db_below_def)
  have b: "0 \<le> silent_samples s \<and> silent_samples s < silent_samples (on_chunk thr s c) \<longrightarrow>
        is_silent thr c \<and> silent_samples (on_chunk thr s c) = silent_samples s + int (length c)"
    by (simp add: on_chunk_silent)
  have c: "silent_samples (foldl (on_chunk thr) new_session cs) = trailing_silent thr cs" for cs
    by (simp add: foldl_on_chunk_silent new_session_def)
  have d: "silent_samples s' = trailing_silent thr (chunks s')"
    if "capture_loop thr n m new_session es = Some (Inr (r, s'))" for r s'
  proof -
    from capture_loop_result [OF that] obtain cs
      where cs: "s' = foldl (on_chunk thr) new_session cs"
      by blast
    then have "chunks s' = cs"
      by (simp add: foldl_on_chunk_chunks new_session_def)
    with cs c [of cs] show ?thesis
      by simp
  qed
  from a b c [of cs] d show ?thesis
    by blast
qed

lemma trailing_example:
  "trailing_silent (- 40) [replicate 2 0, replicate 2 1, replicate 2 0, replicate 3 0] = 5"
  by (simp add: trailing_silent_def is_silent_zeros not_silent_ones)

theorem silent_samples_is_trailing_run_witness:
  "chunk_db (replicate 2 1) = Some 0 \<and> (- 40 :: real) \<le> 0
   \<and> silent_samples (on_chunk (- 40) \<lparr>chunks = [], silent_samples = 7, total_samples = 7\<rparr>
        (replicate 2 1)) = 0
   \<and> silent_samples (on_chunk (- 40) \<lparr>chunks = [], silent_samples = 7, total_samples = 7\<rparr>
        (replicate 2 0)) = 9
   \<and> is_silent (- 40) (replicate 2 0)
   \<and> silent_samples (foldl (on_chunk (- 40)) new_session
        [replicate 2 0, replicate 2 1, replicate 2 0, replicate 3 0]) = 5
   \<and> capture_loop (- 40) (silent_samples_needed 0.064) (max_samples 30) new_session
        [Chunk (replicate 1024 0), Empty, Chunk (replicate 1024 0)]
       = Some (Inr (BreakSilence,
           \<lparr>chunks = [replicate 1024 0, replicate 1024 0], silent_samples = 2048,
            total_samples = 2048\<rparr>))
   \<and> trailing_silent (- 40) [replicate 1024 0, replicate 1024 0] = 2048"
proof -
  let ?s = "\<lparr>chunks = [], silent_samples = 7, total_samples = 7\<rparr>"
  have loud: "silent_samples (on_chunk (- 40) ?s (replicate 2 1)) = 0"
    using silent_samples_is_trailing_run [of "replicate 2 1" "- 40" ?s]
    by (simp add: chunk_db_ones)
  have up: "silent_samples (on_chunk (- 40) ?s (replicate 2 0)) = 9"
    by (simp add: on_chunk_zeros)
  then have quiet: "is_silent (- 40) (replicate 2 0)"
    using silent_samples_is_trailing_run [of "replicate 2 0" "- 40" ?s]
    by simp
  have run: "silent_samples (foldl (on_chunk (- 40)) new_session
        [replicate 2 0, replicate 2 1, replicate 2 0, replicate 3 0]) = 5"
    using silent_samples_is_trailing_run [of _ "- 40" _
        "[replicate 2 0, replicate 2 1, replicate 2 0, replicate 3 0]"]
      trailing_example
    by simp
  have "\<forall>r s'. capture_loop (- 40) (silent_samples_needed 0.064) (max_samples 30) new_session
          [Chunk (replicate 1024 0), Empty, Chunk (replicate 1024 0)] = Some (Inr (r, s')) \<longrightarrow>
          silent_samples s' = trailing_silent (- 40) (chunks s')"
    using silent_samples_is_trailing_run [where thr = "- 40"
        and n = "silent_samples_needed 0.064" and m = "max_samples 30"
        and es = "[Chunk (replicate 1024 0), Empty, Chunk (replicate 1024 0)]"]
    by blast
  with example_run
  have "trailing_silent (- 40) [replicate 1024 0, replicate 1024 0] = 2048"
    by fastforce
  with loud up quiet run example_run show ?thesis
    by (simp add: chunk_db_ones)
qed

section \<open>Errors of the capture operations\<close>






lemma record_until_silence_success:
  assumes "record_until_silence thr d md query env = Some (Inr a)"
  shows "open_error env = None \<and> close_error env = None
     \<and> (\<exists>r s. capture_loop thr (silent_samples_needed d) (max_samples md) new_session (events env)
                = Some (Inr (r, s))
            \<and> normalize_audio \<lparr>dtype = DTYPE, data = concat (chunks s)\<rparr> = Inr a)"
proof -
  let ?n = "silent_samples_needed d" and ?m = "max_samples md"
  from assms obtain r s where w: "with_input_stream thr ?n ?m env = Some (Inr (r, s))"
    and res: "(if chunks s = [] then Inr \<lparr>dtype = Float32, data = []\<rparr>
               else normalize_audio \<lparr>dtype = DTYPE, data = concat (chunks s)\<rparr>) = Inr a"
    by (auto simp: record_until_silence_def split: sum.splits option.splits)
  from w have o: "open_error env = None" and c: "close_error env = None"
    and l: "capture_loop thr ?n ?m new_session (events env) = Some (Inr (r, s))"
    by (auto simp: with_input_stream_def split: option.splits sum.splits)
  from capture_loop_result [OF l] have "chunks s \<noteq> []"
    by (auto simp: foldl_on_chunk_chunks)
  with res o c l show ?thesis
    by auto
qed

lemma normalize_audio_zeros:
  assumes "xs \<noteq> []" and "set xs \<subseteq> {0}"
  shows "normalize_audio \<lparr>dtype = Float32, data = xs\<rparr> = Inr \<lparr>dtype = Float32, data = xs\<rparr>"
proof -
  let ?a = "\<lparr>dtype = Float32, data = xs\<rparr>"
  have "\<not> 0 < peak (data ?a)"
    using assms by (subst peak_pos_iff) auto
  then have "normalize_audio ?a = Inr (?a\<lparr>dtype := Float32\<rparr>)"
    using assms(1) by (intro normalize_audio_unchanged) simp_all
  then show ?thesis
    by simp
qed

lemma record_until_silence_silent_session:
  "record_until_silence (- 40) 0.064 30 mic silent_session
     = Some (Inr \<lparr>dtype = Float32, data = replicate 1024 0 @ replicate 1024 0\<rparr>)"
proof -
  have env: "open_error silent_session = None" "close_error silent_session = None"
    "events silent_session = [Chunk (replicate 1024 0), Empty, Chunk (replicate 1024 0)]"
    by (simp_all add: silent_session_def)
  show ?thesis
    unfolding record_until_silence_def with_input_stream_def env example_run
    by (simp add: mic_available normalize_audio_zeros DTYPE_def)
qed

lemma record_until_silence_result_nonempty:
  assumes "record_until_silence thr d md query env = Some (Inr a)"
  shows "data a \<noteq> []"
proof -
  from record_until_silence_success [OF assms] obtain s :: session
    where "normalize_audio \<lparr>dtype = DTYPE, data = concat (chunks s)\<rparr> = Inr a"
    by blast
  then show ?thesis
    by (cases "concat (chunks s)") (auto simp: normalize_audio_def split: if_splits)
qed

text \<open>
  C8 (the code at the failing input): with a working device and a stream that opens and
  delivers no block, every \<^verbatim>\<open>get\<close> times out and \<^verbatim>\<open>record_until_silence\<close> never returns;
  and no call of \<^verbatim>\<open>record_until_silence\<close> returns an empty array, so the guard
  \<^verbatim>\<open>if not chunks\<close> after the loop is never taken.
\<close>

theorem record_until_silence_without_blocks:
  "record_until_silence thr d md mic
      \<lparr>open_error = None, events = replicate k Empty, close_error = None\<rparr> = None
   \<and> (\<forall>a. record_until_silence thr d md query env = Some (Inr a) \<longrightarrow> data a \<noteq> [])"
  using record_until_silence_result_nonempty [of thr d md query env]
  by (simp add: record_until_silence_def mic_available with_input_stream_def
      capture_loop_timeouts)

theorem record_until_silence_without_blocks_witness:
  "record_until_silence (- 40) 0.064 30 mic silent_session
     = Some (Inr \<lparr>dtype = Float32, data = replicate 1024 0 @ replicate 1024 0\<rparr>)
   \<and> data \<lparr>dtype = Float32, data = replicate 1024 0 @ replicate 1024 (0::real)\<rparr> \<noteq> []"
  using record_until_silence_without_blocks [of "- 40" "0.064" 30 _ mic silent_session]
    record_until_silence_silent_session
  by blast

text \<open>
  C7 (the code at the failing input): a driver that fails during the capture, after one
  loud block, delivers nothing more. The loop then sees only timeouts and is never left,
  so the stream is never closed, no error is raised and \<^verbatim>\<open>record_until_silence\<close> never
  returns, whatever closing the stream would raise and however long the caller waits.
\<close>

theorem record_until_silence_stalled_stream:
  "record_until_silence (- 40) 1.5 30 mic stalled_session = None
   \<and> record_until_silence (- 40) 1.5 30 mic
        \<lparr>open_error = None, events = Chunk (replicate 1024 1) # replicate k Empty,
         close_error = ce\<rparr> = None"
proof -
  have "capture_loop (- 40) (silent_samples_needed 1.5) (max_samples 30) new_session
      (Chunk (replicate 1024 1) # replicate j Empty) = None" for j
    unfolding silent_samples_needed_default max_samples_default
    by (simp add: on_chunk_ones stop_check_def new_session_def capture_loop_timeouts)
  from this [of 0] this [of k] show ?thesis
    by (simp add: record_until_silence_def mic_available with_input_stream_def
        stalled_session_def)
qed



end
